theory Spec2Isabelle
  imports Main "HOL-Library.Multiset" "HOL-Library.Sublist"
begin

section \<open>The Tailwind configuration module \<open>tailwind.config.js\<close>\<close>

text \<open>
  The repository is one CommonJS module whose body is a single assignment of an object
  literal to \<open>module.exports\<close>:
  \<^verbatim>\<open>
  module.exports = {
    content: ["./templates/**/*.{html,js}"],
    theme: {
      extend: {
        colors: {
          primary: '#d4a574',
          secondary: '#8b7355',
        }
      },
    },
    plugins: [],
  }
  \<close>
  The literal is embedded twice: once as an untyped JavaScript value, the way the
  interpreter builds it, and once as a record with the fields the literal has. The
  decoder of the build tool's interface shape relates the two.
\<close>

subsection \<open>JavaScript values\<close>

text \<open>
  An object is kept as the list of its properties in the order the literal writes them,
  so that a repeated key stays visible. Reading a property takes the last entry for the
  key, as evaluating an object literal with a repeated key does.
\<close>

datatype js_value =
    JUndefined
  | JNull
  | JBool bool
  | JString string
  | JArray "js_value list"
  | JObject "(string \<times> js_value) list"

fun get_prop :: "string \<Rightarrow> js_value \<Rightarrow> js_value option" where
  "get_prop k (JObject ps) = map_of (rev ps) k"
| "get_prop k _ = None"

subsection \<open>The exported value\<close>

definition module_exports :: js_value where
  "module_exports =
     JObject
       [(''content'', JArray [JString ''./templates/**/*.{html,js}'']),
        (''theme'',
           JObject
             [(''extend'',
                 JObject
                   [(''colors'',
                       JObject
                         [(''primary'', JString ''#d4a574''),
                          (''secondary'', JString ''#8b7355'')])])]),
        (''plugins'', JArray [])]"

text \<open>
  The same literal as a record. The field \<open>extend\<close> of the source is \<open>extend_theme\<close>
  here, because the record package reserves \<open>extend\<close>.
\<close>

record extension =
  colors :: "(string \<times> string) list"

record theme_options =
  extend_theme :: extension

record config =
  content :: "string list"
  theme :: theme_options
  plugins :: "js_value list"

definition exported_config :: config where
  "exported_config =
     \<lparr>content = [''./templates/**/*.{html,js}''],
      theme =
        \<lparr>extend_theme =
           \<lparr>colors =
              [(''primary'', ''#d4a574''),
               (''secondary'', ''#8b7355'')]\<rparr>\<rparr>,
      plugins = []\<rparr>"

subsection \<open>The hex-color grammar\<close>

text \<open>
  The grammar \<^verbatim>\<open>^#([0-9a-fA-F]{3}|[0-9a-fA-F]{6})$\<close> of the specification: the
  character \<open>#\<close>, then exactly three or exactly six hexadecimal digits, and nothing else.
\<close>

definition hex_digit :: "char \<Rightarrow> bool" where
  "hex_digit c = (c \<in> set ''0123456789abcdefABCDEF'')"

definition hex_color :: "string \<Rightarrow> bool" where
  "hex_color s =
     (case s of
        [] \<Rightarrow> False
      | c # ds \<Rightarrow> c = CHR ''#'' \<and> (length ds = 3 \<or> length ds = 6) \<and> list_all hex_digit ds)"

text \<open>The stricter form both colors of the module have: six lowercase digits.\<close>

definition lower_hex_digit :: "char \<Rightarrow> bool" where
  "lower_hex_digit c = (c \<in> set ''0123456789abcdef'')"

definition hex6_lower :: "string \<Rightarrow> bool" where
  "hex6_lower s =
     (case s of
        [] \<Rightarrow> False
      | c # ds \<Rightarrow> c = CHR ''#'' \<and> length ds = 6 \<and> list_all lower_hex_digit ds)"

subsection \<open>The interface shape of the build tool\<close>

text \<open>
  The shape the specification gives for the consumer of the module:
  \<^verbatim>\<open>{ content: string[], theme: { extend: { colors: { [name: string]: string } } },
    plugins: unknown[] }\<close>.
  The decoder follows that shape and nothing else: it accepts a JavaScript value when the
  value is an object with exactly these keys, each holding a value of the stated kind, and
  returns the record; any other value is refused with \<open>None\<close>.
\<close>

fun as_string :: "js_value \<Rightarrow> string option" where
  "as_string (JString s) = Some s"
| "as_string _ = None"

fun as_array :: "js_value \<Rightarrow> js_value list option" where
  "as_array (JArray xs) = Some xs"
| "as_array _ = None"

fun as_object :: "js_value \<Rightarrow> (string \<times> js_value) list option" where
  "as_object (JObject ps) = Some ps"
| "as_object _ = None"

definition as_string_array :: "js_value \<Rightarrow> string list option" where
  "as_string_array v = Option.bind (as_array v) (\<lambda>xs. those (map as_string xs))"

definition as_string_record :: "js_value \<Rightarrow> (string \<times> string) list option" where
  "as_string_record v =
     Option.bind (as_object v)
       (\<lambda>ps. those (map (\<lambda>(k, x). map_option (Pair k) (as_string x)) ps))"

definition has_exact_keys :: "string list \<Rightarrow> js_value \<Rightarrow> bool" where
  "has_exact_keys ks v =
     (case as_object v of
        None \<Rightarrow> False
      | Some ps \<Rightarrow> distinct (map fst ps) \<and> set (map fst ps) = set ks)"

definition decode_extension :: "js_value \<Rightarrow> extension option" where
  "decode_extension v =
     (if has_exact_keys [''colors''] v
      then Option.bind (get_prop ''colors'' v)
             (\<lambda>c. map_option (\<lambda>cs. \<lparr>colors = cs\<rparr>) (as_string_record c))
      else None)"

definition decode_theme :: "js_value \<Rightarrow> theme_options option" where
  "decode_theme v =
     (if has_exact_keys [''extend''] v
      then Option.bind (get_prop ''extend'' v)
             (\<lambda>e. map_option (\<lambda>x. \<lparr>extend_theme = x\<rparr>) (decode_extension e))
      else None)"

definition decode_config :: "js_value \<Rightarrow> config option" where
  "decode_config v =
     (if has_exact_keys [''content'', ''theme'', ''plugins''] v
      then Option.bind (get_prop ''content'' v) (\<lambda>c.
           Option.bind (as_string_array c) (\<lambda>cs.
           Option.bind (get_prop ''theme'' v) (\<lambda>t.
           Option.bind (decode_theme t) (\<lambda>th.
           Option.bind (get_prop ''plugins'' v) (\<lambda>p.
           map_option (\<lambda>ps. \<lparr>content = cs, theme = th, plugins = ps\<rparr>) (as_array p))))))
      else None)"

subsection \<open>The text of the file\<close>

text \<open>
  The file as it is stored: thirteen lines separated by line feeds, the last one (the
  closing brace) with no line feed after it.
\<close>

definition newline :: char where
  "newline = CHR 0x0A"

definition source_lines :: "string list" where
  \<open>source_lines =
     [''/** @type {import('tailwindcss').Config} */'',
      ''module.exports = {'',
      ''  content: ["./templates/**/*.{html,js}"],'',
      ''  theme: {'',
      ''    extend: {'',
      ''      colors: {'',
      ''        primary: '#d4a574','',
      ''        secondary: '#8b7355','',
      ''      }'',
      ''    },'',
      ''  },'',
      ''  plugins: [],'',
      ''}'']\<close>

fun join_lines :: "string list \<Rightarrow> string" where
  "join_lines [] = []"
| "join_lines [l] = l"
| "join_lines (l # ls) = l @ newline # join_lines ls"

definition source_text :: string where
  "source_text = join_lines source_lines"

text \<open>
  Counting lines: the text is cut at every line feed, so a text with \<open>n\<close> line feeds has
  \<open>n + 1\<close> lines, the last of them possibly empty.
\<close>

fun split_lines :: "string \<Rightarrow> string list" where
  "split_lines [] = [[]]"
| "split_lines (c # cs) =
     (if c = newline then [] # split_lines cs
      else (case split_lines cs of [] \<Rightarrow> [[c]] | l # ls \<Rightarrow> (c # l) # ls))"

definition line_count :: "string \<Rightarrow> nat" where
  "line_count s = length (split_lines s)"

subsection \<open>Glob patterns and scanning\<close>

text \<open>
  Modelled from the spec: the glob matcher and the scanner are the build tool's and are
  not part of the repository; the specification says of a glob pattern only that it is
  a filesystem path-matching expression used to select files for scanning, and of
  scanning that it is a union over the patterns. The matcher below is the usual reading
  of the constructs the pattern of this module uses. A pattern and a path are cut at
  every \<open>/\<close> into segments, and segments are matched one by one:
  \<^item> a segment \<open>**\<close> stands for zero or more whole directory names;
  \<^item> inside a segment, \<open>*\<close> stands for any run of characters, possibly none, and
    \<open>{a,b}\<close> for one of the listed literal texts; every other character stands for
    itself;
  \<^item> braces must balance and do not nest; a pattern that breaks this matches nothing;
  \<^item> a name matched through a wildcard is never empty, never \<open>.\<close> and never \<open>..\<close>;
    whether it may start with a dot that the pattern does not spell out is the option
    \<open>dot\<close> of the matcher, left open here.
\<close>

datatype atom = Lit char | Star | Alt "string list"

datatype segment = Globstar | Seg "atom list"

text \<open>Cutting a pattern or a path at every \<open>/\<close>.\<close>

fun split_path :: "string \<Rightarrow> string list" where
  "split_path [] = [[]]"
| "split_path (c # cs) =
     (if c = CHR ''/'' then [] # split_path cs
      else (case split_path cs of [] \<Rightarrow> [[c]] | s # ss \<Rightarrow> (c # s) # ss))"

text \<open>
  Reading one segment of a pattern. The first argument is \<open>None\<close> outside braces;
  inside braces it holds the alternatives read so far, the newest first and each one
  reversed.
\<close>

fun lex_atoms :: "string list option \<Rightarrow> string \<Rightarrow> atom list option" where
  "lex_atoms None [] = Some []"
| "lex_atoms (Some alts) [] = None"
| "lex_atoms None (c # cs) =
     (if c = CHR ''{'' then lex_atoms (Some [[]]) cs
      else if c = CHR ''}'' then None
      else map_option ((#) (if c = CHR ''*'' then Star else Lit c)) (lex_atoms None cs))"
| "lex_atoms (Some alts) (c # cs) =
     (if c = CHR ''}'' then map_option ((#) (Alt (rev (map rev alts)))) (lex_atoms None cs)
      else if c = CHR ''{'' then None
      else if c = CHR '','' then lex_atoms (Some ([] # alts)) cs
      else (case alts of
              [] \<Rightarrow> None
            | a # rest \<Rightarrow> lex_atoms (Some ((c # a) # rest)) cs))"

definition parse_segment :: "string \<Rightarrow> segment option" where
  "parse_segment s = (if s = ''**'' then Some Globstar else map_option Seg (lex_atoms None s))"

definition parse_glob :: "string \<Rightarrow> segment list option" where
  "parse_glob pat = those (map parse_segment (split_path pat))"

text \<open>Matching one name against one segment, and a list of names against a pattern.\<close>

fun match_atoms :: "atom list \<Rightarrow> string \<Rightarrow> bool" where
  "match_atoms [] s = (s = [])"
| "match_atoms (Lit c # as) s =
     (case s of [] \<Rightarrow> False | d # ds \<Rightarrow> c = d \<and> match_atoms as ds)"
| "match_atoms (Star # as) s =
     (match_atoms as s \<or> (case s of [] \<Rightarrow> False | d # ds \<Rightarrow> match_atoms (Star # as) ds))"
| "match_atoms (Alt alts # as) s =
     list_ex (\<lambda>a. prefix a s \<and> match_atoms as (drop (length a) s)) alts"

definition wildcard_ok :: "bool \<Rightarrow> atom list \<Rightarrow> string \<Rightarrow> bool" where
  "wildcard_ok dot as n =
     (n \<noteq> [] \<and> n \<noteq> ''.'' \<and> n \<noteq> ''..''
      \<and> (dot \<or> \<not> prefix ''.'' n \<or> prefix [Lit CHR ''.''] as))"

definition match_segment :: "bool \<Rightarrow> atom list \<Rightarrow> string \<Rightarrow> bool" where
  "match_segment dot as n =
     (match_atoms as n \<and> (if Star \<in> set as then wildcard_ok dot as n else True))"

fun match_segs :: "bool \<Rightarrow> segment list \<Rightarrow> string list \<Rightarrow> bool" where
  "match_segs dot [] ns = (ns = [])"
| "match_segs dot (Seg as # ps) ns =
     (case ns of [] \<Rightarrow> False | n # rest \<Rightarrow> match_segment dot as n \<and> match_segs dot ps rest)"
| "match_segs dot (Globstar # ps) ns =
     (match_segs dot ps ns
      \<or> (case ns of
            [] \<Rightarrow> False
          | n # rest \<Rightarrow> wildcard_ok dot [] n \<and> match_segs dot (Globstar # ps) rest))"

definition glob_matches :: "bool \<Rightarrow> string \<Rightarrow> string \<Rightarrow> bool" where
  "glob_matches dot pat path =
     (case parse_glob pat of
        None \<Rightarrow> False
      | Some g \<Rightarrow> match_segs dot g (split_path path))"

text \<open>
  Modelled from the spec: scanning is a union over the patterns. The files a list of
  patterns selects are the files that some pattern of the list matches; the matcher is a
  parameter.
\<close>

definition scan_files :: "(string \<Rightarrow> 'f \<Rightarrow> bool) \<Rightarrow> string list \<Rightarrow> 'f list \<Rightarrow> 'f set" where
  "scan_files matches ps files = (\<Union>p \<in> set ps. {f \<in> set files. matches p f})"

text \<open>Putting the segments of a path together again, the inverse of \<open>split_path\<close>.\<close>

fun join_path :: "string list \<Rightarrow> string" where
  "join_path [] = []"
| "join_path [s] = s"
| "join_path (s # ss) = s @ CHR ''/'' # join_path ss"

section \<open>Properties of the exported record\<close>

text \<open>
  Claim C1: every value of the \<open>theme.extend.colors\<close> mapping matches the hex-color
  grammar, that is, it is \<open>#\<close> followed by exactly three or exactly six hexadecimal
  digits.
\<close>

theorem colors_match_hex_grammar:
  "list_all hex_color (map snd (colors (extend_theme (theme exported_config))))"
  by (simp add: exported_config_def hex_color_def hex_digit_def)

text \<open>
  Claim C2: the exported value has exactly the interface shape: the decoder of the shape
  accepts it, and what it returns is the record of the literal, with \<open>content\<close> a list
  of strings, \<open>theme.extend.colors\<close> a list of string pairs and \<open>plugins\<close> a list.
\<close>

theorem module_exports_has_interface_shape:
  "decode_config module_exports = Some exported_config"
proof -
  have keys: "has_exact_keys [''content'', ''theme'', ''plugins''] module_exports"
    by (simp add: has_exact_keys_def module_exports_def)
  have c: "Option.bind (get_prop ''content'' module_exports) as_string_array
             = Some [''./templates/**/*.{html,js}'']"
    by (simp add: module_exports_def as_string_array_def)
  have t: "Option.bind (get_prop ''theme'' module_exports) decode_theme
             = Some (theme exported_config)"
    by (simp add: module_exports_def exported_config_def decode_theme_def
        decode_extension_def has_exact_keys_def as_string_record_def)
  have p: "Option.bind (get_prop ''plugins'' module_exports) as_array = Some []"
    by (simp add: module_exports_def)
  show ?thesis
    using keys c t p
    by (auto simp add: decode_config_def exported_config_def split: Option.bind_splits)
qed

text \<open>
  Claim C3: the \<open>content\<close> field holds at least one element, and every element it
  holds is a non-empty string.
\<close>

theorem content_nonempty_patterns:
  "1 \<le> length (content exported_config)
   \<and> list_all (\<lambda>p. p \<noteq> []) (content exported_config)"
  by (simp add: exported_config_def)

text \<open>
  Claim C4: the \<open>plugins\<close> field is an array, and it is empty: its length is 0. The
  property \<open>plugins\<close> of the untyped value is the empty array as well.
\<close>

theorem plugins_empty_array:
  "plugins exported_config = []
   \<and> length (plugins exported_config) = 0
   \<and> get_prop ''plugins'' module_exports = Some (JArray [])"
  by (simp add: exported_config_def module_exports_def)

text \<open>
  Claim C5: no color name appears more than once among the keys of
  \<open>theme.extend.colors\<close>.
\<close>

theorem color_names_distinct:
  "distinct (map fst (colors (extend_theme (theme exported_config))))"
  by (simp add: exported_config_def)

subsection \<open>The two color grammars\<close>

text \<open>A lowercase hexadecimal digit is a hexadecimal digit, so the six-digit lowercase
  form is a special case of the grammar of the specification.\<close>

lemma lower_hex_digit_is_hex_digit: "lower_hex_digit c \<Longrightarrow> hex_digit c"
  by (auto simp add: lower_hex_digit_def hex_digit_def)

lemma hex6_lower_is_hex_color: "hex6_lower s \<Longrightarrow> hex_color s"
proof (cases s)
  case Nil
  assume "hex6_lower s"
  with Nil show ?thesis by (simp add: hex6_lower_def)
next
  case (Cons c ds)
  assume "hex6_lower s"
  with Cons have h: "c = CHR ''#''" "length ds = 6" "list_all lower_hex_digit ds"
    by (simp_all add: hex6_lower_def)
  from h(3) have "list_all hex_digit ds"
    by (simp add: list_all_iff lower_hex_digit_is_hex_digit)
  with h(1,2) Cons show ?thesis by (simp add: hex_color_def)
qed

text \<open>
  Claim C10: \<open>theme.extend.colors\<close> has exactly two entries, \<open>primary\<close> with
  \<open>#d4a574\<close> and \<open>secondary\<close> with \<open>#8b7355\<close>; both values are six-digit lowercase
  hex colors, a form strictly narrower than the three-or-six-digit mixed-case grammar:
  every string of the narrow form matches the grammar, and \<open>#FFF\<close> matches the grammar
  without being of the narrow form.
\<close>

theorem colors_exactly_two_lowercase_hex6:
  "colors (extend_theme (theme exported_config))
     = [(''primary'', ''#d4a574''), (''secondary'', ''#8b7355'')]
   \<and> length (colors (extend_theme (theme exported_config))) = 2
   \<and> list_all hex6_lower (map snd (colors (extend_theme (theme exported_config))))
   \<and> (\<forall>s. hex6_lower s \<longrightarrow> hex_color s)
   \<and> (\<exists>s. hex_color s \<and> \<not> hex6_lower s)"
proof -
  have entries: "colors (extend_theme (theme exported_config))
     = [(''primary'', ''#d4a574''), (''secondary'', ''#8b7355'')]"
    by (simp add: exported_config_def)
  have strict: "list_all hex6_lower [''#d4a574'', ''#8b7355'']"
    by (simp add: hex6_lower_def lower_hex_digit_def)
  have "hex_color ''#FFF'' \<and> \<not> hex6_lower ''#FFF''"
    by (simp add: hex_color_def hex_digit_def hex6_lower_def)
  hence proper: "\<exists>s. hex_color s \<and> \<not> hex6_lower s" ..
  from entries strict proper show ?thesis
    by (simp add: hex6_lower_is_hex_color)
qed

text \<open>The inclusion of the two grammars, used at the value of \<open>secondary\<close>.\<close>

theorem colors_exactly_two_lowercase_hex6_witness:
  "hex6_lower ''#8b7355'' \<and> hex_color ''#8b7355''"
proof -
  have h: "hex6_lower ''#8b7355''"
    by (simp add: hex6_lower_def lower_hex_digit_def)
  from colors_exactly_two_lowercase_hex6 have "hex6_lower ''#8b7355'' \<longrightarrow> hex_color ''#8b7355''"
    by blast
  with h show ?thesis by simp
qed

section \<open>What the content pattern selects\<close>

subsection \<open>Paths and their segments\<close>

lemma split_path_not_Nil: "split_path p \<noteq> []"
  by (induction p) (auto split: list.splits)

lemma join_split_path: "join_path (split_path p) = p"
proof (induction p)
  case Nil
  show ?case by simp
next
  case (Cons c cs)
  obtain s ss where sp: "split_path cs = s # ss"
    using split_path_not_Nil [of cs] by (cases "split_path cs") auto
  with Cons show ?case by (cases ss) auto
qed

lemma suffix_join_path: "suffix x n \<Longrightarrow> suffix x (join_path (ss @ [n]))"
proof (induction ss)
  case Nil
  then show ?case by simp
next
  case (Cons s ss)
  then have "suffix x (join_path (ss @ [n]))" by simp
  moreover have "join_path ((s # ss) @ [n]) = (s @ ''/'') @ join_path (ss @ [n])"
    by (cases ss) simp_all
  ultimately show ?case by (simp only: suffix_appendI)
qed

subsection \<open>Matching inside a segment\<close>

lemma match_literal: "match_atoms (map Lit l) s = (s = l)"
  by (induction l arbitrary: s) (auto split: list.splits)

lemma match_star_split:
  "match_atoms (Star # as) s \<Longrightarrow> \<exists>pre post. s = pre @ post \<and> match_atoms as post"
proof (induction s)
  case Nil
  then show ?case by auto
next
  case (Cons d ds)
  from Cons.prems have "match_atoms as (d # ds) \<or> match_atoms (Star # as) ds"
    by simp
  then show ?case
  proof
    assume "match_atoms as (d # ds)"
    then have "d # ds = [] @ (d # ds) \<and> match_atoms as (d # ds)" by simp
    then show ?thesis by blast
  next
    assume "match_atoms (Star # as) ds"
    with Cons.IH obtain pre post where "ds = pre @ post" "match_atoms as post" by blast
    then have "d # ds = (d # pre) @ post \<and> match_atoms as post" by simp
    then show ?thesis by blast
  qed
qed

lemma match_extension:
  assumes "match_atoms [Lit CHR ''.'', Alt [''html'', ''js'']] s"
  shows "s = ''.html'' \<or> s = ''.js''"
proof (cases s)
  case Nil
  with assms show ?thesis by simp
next
  case (Cons d ds)
  with assms have d: "d = CHR ''.''"
    and alt: "(prefix ''html'' ds \<and> length ds \<le> 4) \<or> (prefix ''js'' ds \<and> length ds \<le> 2)"
    by auto
  from alt have "ds = ''html'' \<or> ds = ''js''"
    by (auto simp add: prefix_def)
  with d Cons show ?thesis by auto
qed

lemma match_file_name:
  assumes "match_atoms [Star, Lit CHR ''.'', Alt [''html'', ''js'']] n"
  shows "suffix ''.html'' n \<or> suffix ''.js'' n"
proof -
  from match_star_split [OF assms] obtain pre post
    where n: "n = pre @ post" and "match_atoms [Lit CHR ''.'', Alt [''html'', ''js'']] post"
    by blast
  then have "post = ''.html'' \<or> post = ''.js''" by (simp only: match_extension)
  with n show ?thesis by (auto simp add: suffix_def)
qed

subsection \<open>Matching across segments\<close>

lemma match_globstar_split:
  "match_segs dot (Globstar # ps) ns \<Longrightarrow>
     \<exists>ds rest. ns = ds @ rest \<and> list_all (wildcard_ok dot []) ds \<and> match_segs dot ps rest"
proof (induction ns)
  case Nil
  then have "match_segs dot ps []"
    by simp
  then show ?case
    by (intro exI [of _ "[]"]) simp
next
  case (Cons n ns)
  from Cons.prems have
    "match_segs dot ps (n # ns) \<or> (wildcard_ok dot [] n \<and> match_segs dot (Globstar # ps) ns)"
    by simp
  then show ?case
  proof
    assume "match_segs dot ps (n # ns)"
    then show ?thesis
      by (intro exI [of _ "[]"] exI [of _ "n # ns"]) simp
  next
    assume a: "wildcard_ok dot [] n \<and> match_segs dot (Globstar # ps) ns"
    then have "match_segs dot (Globstar # ps) ns" ..
    from Cons.IH [OF this] obtain ds rest where
      "ns = ds @ rest" "list_all (wildcard_ok dot []) ds" "match_segs dot ps rest"
      by (elim exE conjE)
    with a show ?thesis
      by (intro exI [of _ "n # ds"] exI [of _ rest]) simp
  qed
qed

lemma match_literal_segment: "match_segment dot (map Lit l) n \<Longrightarrow> n = l"
  by (simp only: match_segment_def match_literal)

lemma match_segs_Seg:
  "match_segs dot (Seg as # ps) ns \<Longrightarrow>
     \<exists>n rest. ns = n # rest \<and> match_segment dot as n \<and> match_segs dot ps rest"
  by (cases ns) simp_all

subsection \<open>The pattern of the module\<close>

lemma parse_templates_glob:
  "parse_glob ''./templates/**/*.{html,js}'' =
     Some [Seg (map Lit ''.''), Seg (map Lit ''templates''), Globstar,
           Seg [Star, Lit CHR ''.'', Alt [''html'', ''js'']]]"
  by (simp add: parse_glob_def parse_segment_def)

lemma templates_glob_segments:
  assumes "match_segs dot [Seg (map Lit ''.''), Seg (map Lit ''templates''), Globstar,
           Seg [Star, Lit CHR ''.'', Alt [''html'', ''js'']]] ns"
  shows "\<exists>ds n. ns = ''.'' # ''templates'' # ds @ [n]
           \<and> list_all (wildcard_ok dot []) ds
           \<and> wildcard_ok dot [Star, Lit CHR ''.'', Alt [''html'', ''js'']] n
           \<and> (suffix ''.html'' n \<or> suffix ''.js'' n)"
proof -
  let ?file = "[Star, Lit CHR ''.'', Alt [''html'', ''js'']]"
  from match_segs_Seg [OF assms] obtain n1 r1 where ns: "ns = n1 # r1"
    and m1: "match_segment dot (map Lit ''.'') n1"
    and s1: "match_segs dot [Seg (map Lit ''templates''), Globstar, Seg ?file] r1"
    by (elim exE conjE)
  from match_segs_Seg [OF s1] obtain n2 r2 where r1: "r1 = n2 # r2"
    and m2: "match_segment dot (map Lit ''templates'') n2"
    and s2: "match_segs dot [Globstar, Seg ?file] r2"
    by (elim exE conjE)
  from m1 have n1: "n1 = ''.''" by (rule match_literal_segment)
  from m2 have n2: "n2 = ''templates''" by (rule match_literal_segment)
  from match_globstar_split [OF s2] obtain ds rest where r2: "r2 = ds @ rest"
    and vis: "list_all (wildcard_ok dot []) ds" and s3: "match_segs dot [Seg ?file] rest"
    by (elim exE conjE)
  from match_segs_Seg [OF s3] obtain n r3 where rest: "rest = n # r3"
    and m3: "match_segment dot ?file n" and s4: "match_segs dot [] r3"
    by (elim exE conjE)
  from s4 have r3: "r3 = []" by simp
  from m3 have ma: "match_atoms ?file n"
    by (simp only: match_segment_def)
  from m3 have ok: "wildcard_ok dot ?file n"
    by (simp add: match_segment_def del: match_atoms.simps)
  from ma have ext: "suffix ''.html'' n \<or> suffix ''.js'' n" by (rule match_file_name)
  from ns r1 n1 n2 r2 rest r3 have "ns = ''.'' # ''templates'' # ds @ [n]" by simp
  with vis ok ext show ?thesis
    by (intro exI [of _ ds] exI [of _ n] conjI)
qed

lemma templates_glob_paths:
  assumes "glob_matches dot ''./templates/**/*.{html,js}'' f"
  shows "prefix ''./templates/'' f \<and> ''..'' \<notin> set (split_path f)
         \<and> (suffix ''.html'' f \<or> suffix ''.js'' f)"
proof -
  from assms have "match_segs dot [Seg (map Lit ''.''), Seg (map Lit ''templates''), Globstar,
           Seg [Star, Lit CHR ''.'', Alt [''html'', ''js'']]] (split_path f)"
    by (simp only: glob_matches_def parse_templates_glob option.case)
  from templates_glob_segments [OF this] obtain ds n where
    sp: "split_path f = ''.'' # ''templates'' # ds @ [n]"
    and vis: "list_all (wildcard_ok dot []) ds"
    and ok: "wildcard_ok dot [Star, Lit CHR ''.'', Alt [''html'', ''js'']] n"
    and ext: "suffix ''.html'' n \<or> suffix ''.js'' n"
    by (elim exE conjE)
  have f: "f = join_path (''.'' # ''templates'' # ds @ [n])"
    using join_split_path [of f] sp by simp
  have "join_path (''.'' # ''templates'' # ds @ [n]) = ''./templates/'' @ join_path (ds @ [n])"
    by (cases ds) simp_all
  with f have "f = ''./templates/'' @ join_path (ds @ [n])" by simp
  then have pre: "prefix ''./templates/'' f" by (rule prefixI)
  from vis have "''..'' \<notin> set ds"
    by (auto simp add: list_all_iff wildcard_ok_def)
  moreover from ok have "n \<noteq> ''..''" by (simp add: wildcard_ok_def)
  ultimately have nodots: "''..'' \<notin> set (split_path f)" using sp by simp
  have "suffix x n \<Longrightarrow> suffix x f" for x
    using suffix_join_path [of x n "''.'' # ''templates'' # ds"] f by simp
  with ext have "suffix ''.html'' f \<or> suffix ''.js'' f" by blast
  with pre nodots show ?thesis by simp
qed

text \<open>The pattern on a few paths, with and without the option \<open>dot\<close>.\<close>

lemma templates_glob_examples:
  "map (glob_matches False ''./templates/**/*.{html,js}'')
     [''./templates/index.html'', ''./templates/partials/nav.js'', ''./static/app.js'',
      ''./templates/style.css'', ''./templates/../secret.js'', ''./templates/.cache/x.js'']
   = [True, True, False, False, False, False]"
  "map (glob_matches True ''./templates/**/*.{html,js}'')
     [''./templates/index.html'', ''./templates/partials/nav.js'', ''./static/app.js'',
      ''./templates/style.css'', ''./templates/../secret.js'', ''./templates/.cache/x.js'']
   = [True, True, False, False, False, True]"
  by (simp_all add: glob_matches_def parse_templates_glob match_segment_def wildcard_ok_def)

text \<open>
  Claim C9: the \<open>content\<close> field is exactly the one-element list holding the glob
  pattern \<^verbatim>\<open>./templates/**/*.{html,js}\<close>, and the pattern restricts scanning to
  \<open>.html\<close> and \<open>.js\<close> files under the \<open>./templates\<close> directory tree: whatever the
  files offered and whatever the option \<open>dot\<close>, every file the scan selects is one of
  the files offered, its path starts with \<open>./templates/\<close>, no segment of its path is
  \<open>..\<close>, and its path ends with \<open>.html\<close> or with \<open>.js\<close>.
\<close>

theorem content_scans_templates_html_js:
  "content exported_config = [''./templates/**/*.{html,js}'']
   \<and> (\<forall>f. f \<in> scan_files (glob_matches dot) (content exported_config) files \<longrightarrow>
          f \<in> set files
          \<and> prefix ''./templates/'' f
          \<and> ''..'' \<notin> set (split_path f)
          \<and> (suffix ''.html'' f \<or> suffix ''.js'' f))"
proof (intro conjI allI impI)
  show c: "content exported_config = [''./templates/**/*.{html,js}'']"
    by (simp add: exported_config_def)
  fix f
  assume "f \<in> scan_files (glob_matches dot) (content exported_config) files"
  with c have inf: "f \<in> set files" and m: "glob_matches dot ''./templates/**/*.{html,js}'' f"
    by (simp_all add: scan_files_def)
  from inf show "f \<in> set files" .
  from templates_glob_paths [OF m] show "prefix ''./templates/'' f"
    and "''..'' \<notin> set (split_path f)"
    and "suffix ''.html'' f \<or> suffix ''.js'' f"
    by simp_all
qed

text \<open>A file the scan selects among three, and the restriction read off at it.\<close>

theorem content_scans_templates_html_js_witness:
  "''./templates/partials/nav.js''
     \<in> scan_files (glob_matches False) (content exported_config)
         [''./templates/index.html'', ''./templates/partials/nav.js'', ''./static/app.js'']
   \<and> prefix ''./templates/'' ''./templates/partials/nav.js''
   \<and> ''..'' \<notin> set (split_path ''./templates/partials/nav.js'')
   \<and> suffix ''.js'' ''./templates/partials/nav.js''"
proof -
  let ?files = "[''./templates/index.html'', ''./templates/partials/nav.js'', ''./static/app.js'']"
  let ?f = "''./templates/partials/nav.js''"
  have sel: "?f \<in> scan_files (glob_matches False) (content exported_config) ?files"
    by (simp add: scan_files_def exported_config_def glob_matches_def parse_templates_glob
        match_segment_def wildcard_ok_def)
  have js: "suffix ''.js'' ?f"
    by (simp add: suffix_def)
  from content_scans_templates_html_js [of False ?files] sel
  have "prefix ''./templates/'' ?f \<and> ''..'' \<notin> set (split_path ?f)"
    by blast
  with sel js show ?thesis by blast
qed

section \<open>Order of the content patterns\<close>

text \<open>
  Claim C7: the order of the patterns in \<open>content\<close> does not affect what is scanned.
  For every configuration record \<open>c\<close>, the exported one among them, every permutation
  \<open>ps\<close> of its content list, every matcher and every list of files, scanning \<open>ps\<close>
  selects the same set of files as scanning the content list in its original order.
\<close>

theorem content_order_irrelevant:
  assumes "mset ps = mset (content c)"
  shows "scan_files matches ps files = scan_files matches (content c) files"
proof -
  from assms have "set ps = set (content c)"
    by (rule mset_eq_setD)
  then show ?thesis
    by (simp only: scan_files_def)
qed

text \<open>
  The exported record with a second pattern added to its content, scanned in the
  opposite order, with a matcher that compares the part of a pattern before its first
  \<open>*\<close> with the start of the path.
\<close>

theorem content_order_irrelevant_witness:
  "mset [''./static/**/*.js'', ''./templates/**/*.{html,js}'']
     = mset (content (exported_config\<lparr>content := content exported_config @ [''./static/**/*.js'']\<rparr>))
   \<and> scan_files (\<lambda>p f. prefix (takeWhile (\<lambda>c. c \<noteq> CHR ''*'') p) f)
         [''./static/**/*.js'', ''./templates/**/*.{html,js}'']
         [''./templates/index.html'', ''./static/app.js'', ''./README.md'']
     = scan_files (\<lambda>p f. prefix (takeWhile (\<lambda>c. c \<noteq> CHR ''*'') p) f)
         (content (exported_config\<lparr>content := content exported_config @ [''./static/**/*.js'']\<rparr>))
         [''./templates/index.html'', ''./static/app.js'', ''./README.md'']"
proof -
  let ?c = "exported_config\<lparr>content := content exported_config @ [''./static/**/*.js'']\<rparr>"
  have p: "mset [''./static/**/*.js'', ''./templates/**/*.{html,js}''] = mset (content ?c)"
    by (simp add: exported_config_def)
  from p content_order_irrelevant [OF p] show ?thesis
    by (rule conjI)
qed

section \<open>Length of the file\<close>

text \<open>Cutting the text at its line feeds gives back the lines it was joined from.\<close>

lemma split_source_text: "split_lines source_text = source_lines"
  by (simp add: source_text_def source_lines_def newline_def)

lemma length_source_lines: "length source_lines = 13"
  by (simp add: source_lines_def)

lemma newlines_source_text: "count_list source_text newline = 12"
  by (simp add: source_text_def source_lines_def newline_def)

lemma last_source_text: "last source_text = CHR ''}''"
  by (simp add: source_text_def source_lines_def newline_def)

text \<open>
  Claim C6, as the specification states it: the configuration file is exactly 14 lines
  long. The text of the file does not have 14 lines.
\<close>

theorem config_file_not_14_lines: "line_count source_text \<noteq> 14"
  by (simp add: line_count_def split_source_text length_source_lines)

text \<open>
  Claim C6, amended: the configuration file is exactly 13 lines long. Its text holds 12
  line feeds, cutting it at them gives back the 13 lines of the file, and its last
  character is the closing brace, with no line feed after it.
\<close>

theorem config_file_13_lines:
  "line_count source_text = 13
   \<and> count_list source_text newline = 12
   \<and> split_lines source_text = source_lines
   \<and> last source_text = CHR ''}''"
  by (simp add: line_count_def split_source_text length_source_lines
      newlines_source_text last_source_text)

end
